theory Spec2Isabelle
  imports Main "HOL-Library.Char_ord" "HOL-Library.List_Lexorder"
begin

section \<open>The platform the client runs on\<close>

text \<open>
  The client (\<^verbatim>\<open>src/client.ts\<close>, last revision) is a layer over the platform's
  \<^verbatim>\<open>URL\<close>, \<^verbatim>\<open>Headers\<close>, \<^verbatim>\<open>Request\<close>, \<^verbatim>\<open>fetch\<close>, \<^verbatim>\<open>JSON\<close> and timers. Values the
  code throws or a promise rejects with are values of \<open>js_error\<close>; a function of the
  source that can throw returns \<open>js_error + 'a\<close>, with \<open>Inl\<close> the thrown value.
\<close>

datatype js_error =
    SyntaxError string
  | DOMException string string
  | TypeError string
  | Error string

text \<open>
  What awaiting a promise of the platform gives while the cancellation timer of the call
  is pending: the promise resolves, it rejects, or the timer fires first and the
  controller's abort rejects it with the platform's \<^verbatim>\<open>AbortError\<close>.
\<close>

datatype 'a outcome = Resolved 'a | Rejected js_error | Aborted

definition AbortError :: js_error where
  "AbortError = DOMException ''AbortError'' ''The operation was aborted.''"

subsection \<open>URLs and query parameters\<close>

text \<open>
  A \<^verbatim>\<open>URL\<close> object: the string it was parsed from, and the entries of its
  \<^verbatim>\<open>searchParams\<close>, to which \<^verbatim>\<open>append\<close> adds at the end.
\<close>

record url =
  href :: string
  searchParams :: "(string \<times> string) list"

text \<open>
  \<^verbatim>\<open>type Params = Record<string, string | number | boolean | null | undefined>\<close>.
  The record is the list of its properties in the order in which they were added, each
  name once.
\<close>

datatype param = PString string | PNumber int | PBoolean bool | PNull | PUndefined

type_synonym Params = "(string \<times> param) list"

text \<open>
  \<^verbatim>\<open>Object.entries\<close> does not keep that order for every name. A name that is an array
  index (the decimal form, without a leading zero, of an integer from 0 to \<open>2\<^sup>3\<^sup>2 - 2\<close>)
  comes before every other name, the array indices in ascending numeric order; the other
  names follow in the order in which they were added.
\<close>

definition is_digit :: "char \<Rightarrow> bool" where
  "is_digit c = (let n = (of_char c :: nat) in 48 \<le> n \<and> n \<le> 57)"

definition number_of :: "string \<Rightarrow> int" where
  "number_of s = foldl (\<lambda>n c. 10 * n + (of_char c - 48)) 0 s"

definition is_array_index :: "string \<Rightarrow> bool" where
  "is_array_index s =
     (case s of
        [] \<Rightarrow> False
      | c # cs \<Rightarrow>
          list_all is_digit s \<and> (if c = CHR ''0'' then cs = [] else True) \<and>
          number_of s < 4294967295)"

definition Object_entries :: "(string \<times> 'a) list \<Rightarrow> (string \<times> 'a) list" where
  "Object_entries obj =
     sort_key (\<lambda>(key, v). number_of key) (filter (\<lambda>(key, v). is_array_index key) obj) @
     filter (\<lambda>(key, v). \<not> is_array_index key) obj"

fun String_of :: "(int \<Rightarrow> string) \<Rightarrow> param \<Rightarrow> string" where
  "String_of num (PString s) = s"
| "String_of num (PNumber n) = num n"
| "String_of num (PBoolean b) = (if b then ''true'' else ''false'')"
| "String_of num PNull = ''null''"
| "String_of num PUndefined = ''undefined''"

subsection \<open>Headers\<close>

text \<open>
  A \<^verbatim>\<open>Headers\<close> object is its header list: the pairs of a name and a value in the order
  in which they were appended. A name may occur more than once. Header names are
  case-insensitive: the platform lower-cases them. It strips the white space (tab, line
  feed, carriage return, space) at both ends of a value. A \<^verbatim>\<open>HeadersInit\<close> (a record, an
  array of pairs or a \<^verbatim>\<open>Headers\<close> object) is the list of the pairs the platform reads
  from it.
\<close>

type_synonym HeadersInit = "(string \<times> string) list"
type_synonym Headers = "(string \<times> string) list"

definition lower_char :: "char \<Rightarrow> char" where
  "lower_char c =
     (let n = (of_char c :: nat) in if 65 \<le> n \<and> n \<le> 90 then char_of (n + 32) else c)"

definition toLowerCase :: "string \<Rightarrow> string" where
  "toLowerCase s = map lower_char s"

definition HTTP_whitespace :: "char \<Rightarrow> bool" where
  "HTTP_whitespace c = (let n = (of_char c :: nat) in n = 9 \<or> n = 10 \<or> n = 13 \<or> n = 32)"

definition normalize_value :: "string \<Rightarrow> string" where
  "normalize_value v = rev (dropWhile HTTP_whitespace (rev (dropWhile HTTP_whitespace v)))"





text \<open>The values of a name, and several values as \<^verbatim>\<open>get\<close> and the iteration join them.\<close>

definition header_values :: "Headers \<Rightarrow> string \<Rightarrow> string list" where
  "header_values h n = map snd (filter (\<lambda>(k, v). k = n) h)"

fun join_values :: "string list \<Rightarrow> string" where
  "join_values [] = []"
| "join_values [v] = v"
| "join_values (v # w # vs) = v @ '', '' @ join_values (w # vs)"

definition Headers_get :: "Headers \<Rightarrow> string \<Rightarrow> string option" where
  "Headers_get h name =
     (case header_values h (toLowerCase name) of
        [] \<Rightarrow> None
      | v # vs \<Rightarrow> Some (join_values (v # vs)))"

definition Headers_append :: "string \<Rightarrow> string \<Rightarrow> Headers \<Rightarrow> Headers" where
  "Headers_append name v h = h @ [(toLowerCase name, normalize_value v)]"

text \<open>\<^verbatim>\<open>set\<close>: the first pair of the name takes the value and the others go.\<close>

fun set_first :: "string \<Rightarrow> string \<Rightarrow> Headers \<Rightarrow> Headers" where
  "set_first n v [] = []"
| "set_first n v ((k, x) # h) =
     (if k = n then (n, v) # filter (\<lambda>(k', x'). k' \<noteq> n) h else (k, x) # set_first n v h)"

definition Headers_set :: "string \<Rightarrow> string \<Rightarrow> Headers \<Rightarrow> Headers" where
  "Headers_set name v h =
     (if toLowerCase name \<in> fst ` set h then set_first (toLowerCase name) (normalize_value v) h
      else h @ [(toLowerCase name, normalize_value v)])"

definition Headers_new :: "HeadersInit \<Rightarrow> Headers" where
  "Headers_new init = fold (\<lambda>(name, v). Headers_append name v) init []"

text \<open>
  What the iteration of a \<^verbatim>\<open>Headers\<close> object (\<^verbatim>\<open>forEach\<close>, \<^verbatim>\<open>entries\<close>) visits: the names
  in ascending order, each once with its values joined, but \<^verbatim>\<open>set-cookie\<close> once for each
  of its values.
\<close>

definition Headers_entries :: "Headers \<Rightarrow> (string \<times> string) list" where
  "Headers_entries h =
     concat (map (\<lambda>n. if n = ''set-cookie'' then map (Pair n) (header_values h n)
                       else [(n, join_values (header_values h n))])
               (sort (remdups (map fst h))))"

subsection \<open>Request options\<close>

text \<open>
  A \<^verbatim>\<open>RequestInit\<close> object is a map from its own property names to their values, so
  that the object spread \<^verbatim>\<open>{ ...a, ...b }\<close> is \<open>a ++ b\<close>: a property of \<open>b\<close>, also one whose
  value is \<^verbatim>\<open>undefined\<close>, replaces that of \<open>a\<close>.
\<close>

datatype init_value =
    Undefined
  | Str string
  | AbortSignal nat
  | HeadersValue "(string \<times> string) list"

type_synonym RequestInit = "string \<Rightarrow> init_value option"

definition headers_of :: "RequestInit \<Rightarrow> HeadersInit" where
  "headers_of r = (case r ''headers'' of Some (HeadersValue h) \<Rightarrow> h | _ \<Rightarrow> [])"

record Request =
  request_url :: url
  request_init :: RequestInit

record Response =
  status :: nat
  body_text :: "string outcome"

definition response_ok :: "Response \<Rightarrow> bool" where
  "response_ok r = (200 \<le> status r \<and> status r \<le> 299)"

text \<open>
  The functions of the platform whose results the client does not decide:
  \<^verbatim>\<open>new URL(s)\<close> (throws on a string that is no absolute URL), the string form of a
  number, the check \<^verbatim>\<open>new Request(url, init)\<close> makes, what \<^verbatim>\<open>fetch\<close> answers,
  \<^verbatim>\<open>JSON.parse\<close> (\<open>None\<close> where it throws its \<^verbatim>\<open>SyntaxError\<close>) and \<^verbatim>\<open>JSON.stringify\<close>.
\<close>

record ('j, 'v) platform =
  URL_new :: "string \<Rightarrow> js_error + url"
  Number_toString :: "int \<Rightarrow> string"
  Request_invalid :: "url \<Rightarrow> RequestInit \<Rightarrow> js_error option"
  fetch :: "Request \<Rightarrow> Response outcome"
  JSON_parse :: "string \<Rightarrow> 'j option"
  JSON_stringify :: "(string \<times> 'v) list \<Rightarrow> js_error + string"

definition Request_new :: "('j, 'v) platform \<Rightarrow> url \<Rightarrow> RequestInit \<Rightarrow> js_error + Request" where
  "Request_new pf u init =
     (case Request_invalid pf u init of
        Some e \<Rightarrow> Inl e
      | None \<Rightarrow> Inr \<lparr>request_url = u, request_init = init\<rparr>)"

subsection \<open>Timers and the network\<close>

text \<open>
  The state a call changes: the timers that are pending, the next timer id, and the
  requests handed to \<^verbatim>\<open>fetch\<close> so far.
\<close>

record world =
  timers :: "nat list"
  next_timer :: nat
  sent :: "Request list"

definition setTimeout :: "world \<Rightarrow> nat \<times> world" where
  "setTimeout w =
     (next_timer w, w\<lparr>timers := next_timer w # timers w, next_timer := Suc (next_timer w)\<rparr>)"

definition clearTimeout :: "nat \<Rightarrow> world \<Rightarrow> world" where
  "clearTimeout t w = w\<lparr>timers := removeAll t (timers w)\<rparr>"

text \<open>Awaiting under the timer \<open>t\<close>: a timer that fires is no longer pending.\<close>

definition await :: "nat \<Rightarrow> 'a outcome \<Rightarrow> world \<Rightarrow> (js_error + 'a) \<times> world" where
  "await t out w =
     (case out of
        Resolved x \<Rightarrow> (Inr x, w)
      | Rejected e \<Rightarrow> (Inl e, w)
      | Aborted \<Rightarrow> (Inl AbortError, w\<lparr>timers := removeAll t (timers w)\<rparr>))"

section \<open>The client\<close>

subsection \<open>buildUrl\<close>

fun append_params :: "(int \<Rightarrow> string) \<Rightarrow> Params \<Rightarrow> url \<Rightarrow> url" where
  "append_params num [] u = u"
| "append_params num ((key, v) # rest) u =
     (if v \<noteq> PNull \<and> v \<noteq> PUndefined
      then append_params num rest (u\<lparr>searchParams := searchParams u @ [(key, String_of num v)]\<rparr>)
      else append_params num rest u)"

definition buildUrl ::
  "('j, 'v) platform \<Rightarrow> string \<Rightarrow> string \<Rightarrow> Params option \<Rightarrow> js_error + url" where
  "buildUrl pf api_url path params =
     (case URL_new pf (api_url @ path) of
        Inl e \<Rightarrow> Inl e
      | Inr u \<Rightarrow>
          (case params of
             None \<Rightarrow> Inr u
           | Some ps \<Rightarrow> Inr (append_params (Number_toString pf) (Object_entries ps) u)))"

subsection \<open>mergeRequests\<close>

text \<open>\<^verbatim>\<open>new Headers(request.headers).forEach((value, key) => mergedHeaders.set(key, value))\<close>\<close>

definition forEach_set :: "Headers \<Rightarrow> Headers \<Rightarrow> Headers" where
  "forEach_set headers mergedHeaders =
     fold (\<lambda>(key, v). Headers_set key v) (Headers_entries headers) mergedHeaders"

fun mergeRequests_loop ::
  "RequestInit option list \<Rightarrow> RequestInit \<times> Headers \<Rightarrow> RequestInit \<times> Headers" where
  "mergeRequests_loop [] acc = acc"
| "mergeRequests_loop (None # requests) acc = mergeRequests_loop requests acc"
| "mergeRequests_loop (Some request # requests) (mergedResult, mergedHeaders) =
     mergeRequests_loop requests
       (mergedResult ++ request, forEach_set (Headers_new (headers_of request)) mergedHeaders)"

definition mergeRequests :: "RequestInit option list \<Rightarrow> RequestInit" where
  "mergeRequests requests =
     (case mergeRequests_loop requests (Map.empty, []) of
        (mergedResult, mergedHeaders) \<Rightarrow> mergedResult(''headers'' \<mapsto> HeadersValue mergedHeaders))"

subsection \<open>Results and handleError\<close>

datatype error_code = SYNTAX_ERROR | TIMEOUT | UNKNOWN_ERROR

datatype 'j FetchResponse =
    Success 'j Response
  | ApplicationError 'j Response
  | TransportError error_code js_error

fun ok :: "'j FetchResponse \<Rightarrow> bool" where
  "ok (Success d r) = True"
| "ok (ApplicationError d r) = False"
| "ok (TransportError c e) = False"

fun error_code_of :: "'j FetchResponse \<Rightarrow> string option" where
  "error_code_of (Success d r) = None"
| "error_code_of (ApplicationError d r) = Some ''NOT_OK''"
| "error_code_of (TransportError SYNTAX_ERROR e) = Some ''SYNTAX_ERROR''"
| "error_code_of (TransportError TIMEOUT e) = Some ''TIMEOUT''"
| "error_code_of (TransportError UNKNOWN_ERROR e) = Some ''UNKNOWN_ERROR''"

fun handleError :: "js_error \<Rightarrow> 'j FetchResponse" where
  "handleError (SyntaxError m) = TransportError SYNTAX_ERROR (SyntaxError m)"
| "handleError (DOMException name m) =
     (if name = ''AbortError'' then TransportError TIMEOUT (DOMException name m)
      else TransportError UNKNOWN_ERROR (DOMException name m))"
| "handleError e = TransportError UNKNOWN_ERROR e"

subsection \<open>The configuration and refine\<close>

text \<open>
  \<^verbatim>\<open>request?: Readonly<RequestInit>\<close>: the property may be missing, or there with the value
  \<^verbatim>\<open>undefined\<close>, or there with request options.
\<close>

datatype 'a optional = Absent | Undef | Defined 'a

record InfinibrowserConfig =
  API_URL :: string
  timeout :: int
  request :: "RequestInit optional"

definition config_request :: "InfinibrowserConfig \<Rightarrow> RequestInit option" where
  "config_request c = (case request c of Defined r \<Rightarrow> Some r | _ \<Rightarrow> None)"

text \<open>The headers the configuration's request options give every call.\<close>

definition config_headers :: "InfinibrowserConfig \<Rightarrow> Headers" where
  "config_headers c = Headers_new (case config_request c of None \<Rightarrow> [] | Some r \<Rightarrow> headers_of r)"

text \<open>\<^verbatim>\<open>$refined(config)\<close>: \<^verbatim>\<open>new Infinibrowser({ ...this.$config, ...config })\<close>.\<close>

definition refined :: "InfinibrowserConfig \<Rightarrow> InfinibrowserConfig \<Rightarrow> InfinibrowserConfig" where
  "refined this config =
     \<lparr>API_URL = API_URL config,
      timeout = timeout config,
      request = (case request config of Absent \<Rightarrow> request this | r \<Rightarrow> r)\<rparr>"

subsection \<open>The timeout-guarded send\<close>

text \<open>\<^verbatim>\<open>JSON.parse(await response.clone().text())\<close>, which both branches on \<^verbatim>\<open>response.ok\<close> run.\<close>

definition read_body ::
  "('j, 'v) platform \<Rightarrow> nat \<Rightarrow> Response \<Rightarrow> world \<Rightarrow> (js_error + 'j) \<times> world" where
  "read_body pf t response w =
     (case await t (body_text response) w of
        (Inl e, w') \<Rightarrow> (Inl e, w')
      | (Inr txt, w') \<Rightarrow>
          (case JSON_parse pf txt of
             None \<Rightarrow> (Inl (SyntaxError ''JSON.parse''), w')
           | Some d \<Rightarrow> (Inr d, w')))"

text \<open>
  The first statements of the \<^verbatim>\<open>try\<close> block: the request options are merged, the
  \<^verbatim>\<open>Request\<close> is built and handed to \<^verbatim>\<open>fetch\<close>, and the response is awaited.
\<close>

definition requestInit :: "InfinibrowserConfig \<Rightarrow> nat \<Rightarrow> RequestInit \<Rightarrow> RequestInit" where
  "requestInit cfg t init =
     mergeRequests
       [config_request cfg, Some init,
        Some [''signal'' \<mapsto> AbortSignal t,
              ''headers'' \<mapsto> HeadersValue [(''Accept-Encoding'', ''gzip, deflate, identity'')]]]"

definition send_request ::
  "('j, 'v) platform \<Rightarrow> InfinibrowserConfig \<Rightarrow> nat \<Rightarrow> url \<Rightarrow> RequestInit \<Rightarrow> world
     \<Rightarrow> (js_error + Response) \<times> world" where
  "send_request pf cfg t u init w =
     (case Request_new pf u (requestInit cfg t init) of
        Inl e \<Rightarrow> (Inl e, w)
      | Inr req \<Rightarrow> await t (fetch pf req) (w\<lparr>sent := sent w @ [req]\<rparr>))"

definition try_block ::
  "('j, 'v) platform \<Rightarrow> InfinibrowserConfig \<Rightarrow> nat \<Rightarrow> url \<Rightarrow> RequestInit \<Rightarrow> world
     \<Rightarrow> (js_error + 'j FetchResponse) \<times> world" where
  "try_block pf cfg t u init w =
     (case send_request pf cfg t u init w of
        (Inl e, w1) \<Rightarrow> (Inl e, w1)
      | (Inr response, w1) \<Rightarrow>
          if \<not> response_ok response then
            (case read_body pf t response w1 of
               (Inl e, w2) \<Rightarrow> (Inl e, w2)
             | (Inr d, w2) \<Rightarrow> (Inr (ApplicationError d response), w2))
          else
            (case read_body pf t response w1 of
               (Inl e, w2) \<Rightarrow> (Inl e, w2)
             | (Inr d, w2) \<Rightarrow> (Inr (Success d response), w2)))"

text \<open>
  \<^verbatim>\<open>try { ... } catch (error) { return handleError(error) } finally { clearTimeout(timeout) }\<close>:
  the timer \<open>t\<close> is started before the block and cleared after it.
\<close>

definition fetchWithTimeout ::
  "('j, 'v) platform \<Rightarrow> InfinibrowserConfig \<Rightarrow> url \<Rightarrow> RequestInit \<Rightarrow> world
     \<Rightarrow> (js_error + 'j FetchResponse) \<times> world" where
  "fetchWithTimeout pf cfg u init w =
     (case setTimeout w of
        (t, w0) \<Rightarrow>
          (case try_block pf cfg t u init w0 of
             (Inr r, w1) \<Rightarrow> (Inr r, clearTimeout t w1)
           | (Inl e, w1) \<Rightarrow> (Inr (handleError e), clearTimeout t w1)))"

subsection \<open>The GET and POST primitives\<close>

text \<open>
  \<^verbatim>\<open>buildUrl\<close> runs before the guarded send, and so does \<^verbatim>\<open>JSON.stringify\<close> in
  \<^verbatim>\<open>#post\<close>: what they throw is thrown by the primitive.
\<close>

definition get ::
  "('j, 'v) platform \<Rightarrow> InfinibrowserConfig \<Rightarrow> string \<Rightarrow> Params option \<Rightarrow> world
     \<Rightarrow> (js_error + 'j FetchResponse) \<times> world" where
  "get pf cfg path params w =
     (case buildUrl pf (API_URL cfg) path params of
        Inl e \<Rightarrow> (Inl e, w)
      | Inr u \<Rightarrow>
          fetchWithTimeout pf cfg u
            [''method'' \<mapsto> Str ''GET'',
             ''headers'' \<mapsto> HeadersValue [(''Accept'', ''application/json'')]] w)"

definition post ::
  "('j, 'v) platform \<Rightarrow> InfinibrowserConfig \<Rightarrow> string \<Rightarrow> Params option
     \<Rightarrow> (string \<times> 'v) list option \<Rightarrow> world \<Rightarrow> (js_error + 'j FetchResponse) \<times> world" where
  "post pf cfg path params payload w =
     (case buildUrl pf (API_URL cfg) path params of
        Inl e \<Rightarrow> (Inl e, w)
      | Inr u \<Rightarrow>
          (case JSON_stringify pf (case payload of None \<Rightarrow> [] | Some p \<Rightarrow> p) of
             Inl e \<Rightarrow> (Inl e, w)
           | Inr body \<Rightarrow>
               fetchWithTimeout pf cfg u
                 [''method'' \<mapsto> Str ''POST'',
                  ''headers'' \<mapsto> HeadersValue [(''Content-Type'', ''application/json'')],
                  ''body'' \<mapsto> Str body] w))"

subsection \<open>The endpoint methods\<close>

definition getItem ::
  "('j, 'v) platform \<Rightarrow> InfinibrowserConfig \<Rightarrow> string \<Rightarrow> world
     \<Rightarrow> (js_error + 'j FetchResponse) \<times> world" where
  "getItem pf cfg i w = get pf cfg ''/item'' (Some [(''id'', PString i)]) w"

definition getRecipes ::
  "('j, 'v) platform \<Rightarrow> InfinibrowserConfig \<Rightarrow> string \<Rightarrow> int option \<Rightarrow> world
     \<Rightarrow> (js_error + 'j FetchResponse) \<times> world" where
  "getRecipes pf cfg i offset w =
     get pf cfg ''/recipes''
       (Some [(''id'', PString i),
              (''offset'', PNumber (case offset of None \<Rightarrow> 0 | Some n \<Rightarrow> n))]) w"

definition getUses ::
  "('j, 'v) platform \<Rightarrow> InfinibrowserConfig \<Rightarrow> string \<Rightarrow> int option \<Rightarrow> world
     \<Rightarrow> (js_error + 'j FetchResponse) \<times> world" where
  "getUses pf cfg i offset w =
     get pf cfg ''/uses''
       (Some [(''id'', PString i),
              (''offset'', PNumber (case offset of None \<Rightarrow> 0 | Some n \<Rightarrow> n))]) w"

definition getLineage ::
  "('j, 'v) platform \<Rightarrow> InfinibrowserConfig \<Rightarrow> string \<Rightarrow> world
     \<Rightarrow> (js_error + 'j FetchResponse) \<times> world" where
  "getLineage pf cfg i w = get pf cfg ''/recipe'' (Some [(''id'', PString i)]) w"

definition getCustomLineage ::
  "('j, 'v) platform \<Rightarrow> InfinibrowserConfig \<Rightarrow> string \<Rightarrow> world
     \<Rightarrow> (js_error + 'j FetchResponse) \<times> world" where
  "getCustomLineage pf cfg i w = get pf cfg ''/recipe/custom'' (Some [(''id'', PString i)]) w"

definition optimizeLineage ::
  "('j, 'v) platform \<Rightarrow> InfinibrowserConfig \<Rightarrow> string \<Rightarrow> world
     \<Rightarrow> (js_error + 'j FetchResponse) \<times> world" where
  "optimizeLineage pf cfg i w =
     post pf cfg ''/optimize-lineage'' (Some [(''id'', PString i)]) None w"

text \<open>
  \<^verbatim>\<open>ShareLineageType\<close> is declared in \<^verbatim>\<open>./types\<close>; the code reads the third component of
  a step and its \<^verbatim>\<open>id\<close> and \<^verbatim>\<open>emoji\<close>. The first two components are left open.
\<close>

record element =
  id' :: string
  emoji :: string

type_synonym ('a, 'b) step = "'a \<times> 'b \<times> element"

datatype ('a, 'b) unknown = StringValue string | StepsValue "('a, 'b) step list"

definition shareLineage ::
  "('j, ('a, 'b) unknown) platform \<Rightarrow> InfinibrowserConfig \<Rightarrow> ('a, 'b) step list \<Rightarrow> world
     \<Rightarrow> (js_error + 'j FetchResponse) \<times> world" where
  "shareLineage pf cfg steps w =
     (case steps of
        [] \<Rightarrow> (Inl (Error ''Lineage must not be empty''), w)
      | _ # _ \<Rightarrow>
          (let lastStep = last steps;
               resultElement = snd (snd lastStep);
               payload = [(''id'', StringValue (id' resultElement)),
                          (''emoji'', StringValue (emoji resultElement)),
                          (''steps'', StepsValue steps)]
           in post pf cfg ''/analytics/share'' None (Some payload) w))"

section \<open>What the specification says, as functions\<close>

text \<open>
  The value the last element of a list gives that gives one: the specification's
  "taken from the last specification that defines it".
\<close>

definition last_defined :: "('a \<Rightarrow> 'b option) \<Rightarrow> 'a list \<Rightarrow> 'b option" where
  "last_defined f xs = (case filter (\<lambda>x. f x \<noteq> None) xs of [] \<Rightarrow> None | y # ys \<Rightarrow> f (last (y # ys)))"


text \<open>The request specifications of an argument list that are not \<^verbatim>\<open>undefined\<close>.\<close>

fun defined_requests :: "'a option list \<Rightarrow> 'a list" where
  "defined_requests [] = []"
| "defined_requests (None # rs) = defined_requests rs"
| "defined_requests (Some r # rs) = r # defined_requests rs"

text \<open>
  The error code the specification gives an exception by its kind: a
  \<^verbatim>\<open>SyntaxError\<close>, the abort of the timeout, anything else.
\<close>

fun code_by_kind :: "js_error \<Rightarrow> error_code" where
  "code_by_kind (SyntaxError m) = SYNTAX_ERROR"
| "code_by_kind (DOMException name m) = (if name = ''AbortError'' then TIMEOUT else UNKNOWN_ERROR)"
| "code_by_kind (TypeError m) = UNKNOWN_ERROR"
| "code_by_kind (Error m) = UNKNOWN_ERROR"

section \<open>A platform to run the client on\<close>

text \<open>
  A small service for the examples: it knows the element \<^verbatim>\<open>Water\<close>, never answers a
  request for \<^verbatim>\<open>Slow\<close>, answers one for \<^verbatim>\<open>Broken\<close> with a gateway's HTML page, and knows
  no other element. Its URL parser accepts what starts with \<^verbatim>\<open>https://\<close>.
\<close>

datatype json = JNumber int | JString string | JObject "(string \<times> json) list"

fun digits :: "nat \<Rightarrow> string" where
  "digits n =
     (if n < 10 then [char_of (48 + n)] else digits (n div 10) @ [char_of (48 + n mod 10)])"

declare digits.simps [simp del]

definition decimal :: "int \<Rightarrow> string" where
  "decimal n = (if n < 0 then CHR ''-'' # digits (nat (- n)) else digits (nat n))"

definition mock_URL :: "string \<Rightarrow> js_error + url" where
  "mock_URL s =
     (if take 8 s = ''https://'' then Inr \<lparr>href = s, searchParams = []\<rparr>
      else Inl (TypeError ''Invalid URL''))"

definition mock_parse :: "string \<Rightarrow> json option" where
  "mock_parse s =
     (if s = ''{\"text\":\"Water\"}'' then Some (JObject [(''text'', JString ''Water'')])
      else if s = ''{\"code\":404,\"message\":\"Unknown element\"}''
      then Some (JObject [(''code'', JNumber 404), (''message'', JString ''Unknown element'')])
      else if s = ''{\"id\":\"shared\"}'' then Some (JObject [(''id'', JString ''shared'')])
      else None)"

definition mock_fetch :: "Request \<Rightarrow> Response outcome" where
  "mock_fetch req =
     (let i = map_of (searchParams (request_url req)) ''id'' in
      if i = Some ''Water''
        then Resolved \<lparr>status = 200, body_text = Resolved ''{\"text\":\"Water\"}''\<rparr>
      else if i = Some ''Slow'' then Aborted
      else if i = Some ''Broken''
        then Resolved \<lparr>status = 502, body_text = Resolved ''<html>Bad Gateway</html>''\<rparr>
      else if href (request_url req) = ''https://infinibrowser.wiki/api/analytics/share''
        then Resolved \<lparr>status = 200, body_text = Resolved ''{\"id\":\"shared\"}''\<rparr>
      else Resolved \<lparr>status = 404,
             body_text = Resolved ''{\"code\":404,\"message\":\"Unknown element\"}''\<rparr>)"

text \<open>The serialisation of the examples keeps the property names only.\<close>

definition mock_stringify :: "(string \<times> 'v) list \<Rightarrow> js_error + string" where
  "mock_stringify p = Inr (''{'' @ concat (map (\<lambda>(k, v). k @ '';'') p) @ ''}'')"

definition mock_platform :: "(json, 'v) platform" where
  "mock_platform =
     \<lparr>URL_new = mock_URL, Number_toString = decimal, Request_invalid = (\<lambda>u init. None),
      fetch = mock_fetch, JSON_parse = mock_parse, JSON_stringify = mock_stringify\<rparr>"

definition DEFAULT_OPTIONS :: InfinibrowserConfig where
  "DEFAULT_OPTIONS = \<lparr>API_URL = ''https://infinibrowser.wiki/api'', timeout = 1000, request = Absent\<rparr>"

definition idle :: world where
  "idle = \<lparr>timers = [], next_timer = 0, sent = []\<rparr>"

section \<open>Lemmas\<close>

subsection \<open>Object.entries, headers and mergeRequests\<close>

lemma not_index_id: "\<not> is_array_index ''id''"
  by code_simp

lemma not_index_offset: "\<not> is_array_index ''offset''"
  by code_simp

lemma Object_entries_id: "Object_entries [(''id'', v)] = [(''id'', v)]"
  by (simp add: Object_entries_def not_index_id)

lemma Object_entries_id_offset:
  "Object_entries [(''id'', v), (''offset'', x)] = [(''id'', v), (''offset'', x)]"
  by (simp add: Object_entries_def not_index_id not_index_offset)

lemma Object_entries_no_index:
  "list_all (\<lambda>(key, v). \<not> is_array_index key) obj \<Longrightarrow> Object_entries obj = obj"
proof -
  assume a: "list_all (\<lambda>(key, v). \<not> is_array_index key) obj"
  then have "filter (\<lambda>(key, v). is_array_index key) obj = []"
    by (induction obj) auto
  moreover from a have "filter (\<lambda>(key, v). \<not> is_array_index key) obj = obj"
    by (induction obj) auto
  ultimately show ?thesis by (simp add: Object_entries_def)
qed












lemma last_defined_Nil [simp]: "last_defined f [] = None"
  by (simp add: last_defined_def)

lemma last_defined_Cons [simp]:
  "last_defined f (x # xs) = (case last_defined f xs of Some v \<Rightarrow> Some v | None \<Rightarrow> f x)"
proof (cases "filter (\<lambda>x. f x \<noteq> None) xs")
  case Nil
  have tail: "last_defined f xs = None"
    unfolding last_defined_def Nil by simp
  have "last_defined f (x # xs) = f x"
  proof (cases "f x")
    case None
    then show ?thesis unfolding last_defined_def by (simp add: Nil del: not_None_eq)
  next
    case (Some a)
    then show ?thesis unfolding last_defined_def by (simp add: Nil del: not_None_eq)
  qed
  then show ?thesis by (simp add: tail)
next
  case (Cons y ys)
  have "last (y # ys) \<in> set (filter (\<lambda>x. f x \<noteq> None) xs)"
    unfolding Cons by (rule last_in_set) simp
  then obtain v where v: "f (last (y # ys)) = Some v" by auto
  have tail: "last_defined f xs = Some v"
    unfolding last_defined_def Cons using v by simp
  have "last_defined f (x # xs) = f (last (y # ys))"
  proof (cases "f x")
    case None
    then show ?thesis unfolding last_defined_def by (simp add: Cons del: not_None_eq)
  next
    case (Some a)
    then show ?thesis unfolding last_defined_def by (simp add: Cons del: not_None_eq)
  qed
  also have "\<dots> = Some v" by (rule v)
  finally show ?thesis by (simp add: tail)
qed


lemma last_defined_None: "(\<forall>x \<in> set xs. f x = None) \<Longrightarrow> last_defined f xs = None"
  by (induction xs) simp_all










lemma mergeRequests_loop_fields:
  "fst (mergeRequests_loop rs (m, h)) k =
     (case last_defined (\<lambda>r. r k) (defined_requests rs) of Some v \<Rightarrow> Some v | None \<Rightarrow> m k)"
proof (induction rs arbitrary: m h)
  case Nil
  then show ?case by simp
next
  case (Cons r rs)
  then show ?case
    by (cases r) (auto simp: map_add_def split: option.splits)
qed


lemma mergeRequests_field:
  "k \<noteq> ''headers'' \<Longrightarrow>
   mergeRequests rs k = last_defined (\<lambda>r. r k) (defined_requests rs)"
proof -
  assume k: "k \<noteq> ''headers''"
  obtain m h where loop: "mergeRequests_loop rs (Map.empty, []) = (m, h)"
    by (cases "mergeRequests_loop rs (Map.empty, [])")
  have "m k = last_defined (\<lambda>r. r k) (defined_requests rs)"
    using mergeRequests_loop_fields [of rs Map.empty "[]" k] by (simp add: loop split: option.splits)
  then show ?thesis using k by (simp add: mergeRequests_def loop)
qed

lemma append_params_filter:
  "append_params num ps u =
     u\<lparr>searchParams := searchParams u @
        map (\<lambda>(key, v). (key, String_of num v))
          (filter (\<lambda>(key, v). v \<noteq> PNull \<and> v \<noteq> PUndefined) ps)\<rparr>"
  by (induction ps arbitrary: u) auto

subsection \<open>Steps of the guarded send\<close>

lemma handleError_code: "handleError e = TransportError (code_by_kind e) e"
  by (cases e) simp_all

lemma await_Resolved: "await t (Resolved x) w = (Inr x, w)"
  by (simp add: await_def)

lemma await_Rejected: "await t (Rejected e) w = (Inl e, w)"
  by (simp add: await_def)

lemma await_Aborted: "fst (await t Aborted w) = Inl AbortError"
  by (simp add: await_def)

lemma await_frame:
  "removeAll t (timers (snd (await t out w))) = removeAll t (timers w) \<and>
   next_timer (snd (await t out w)) = next_timer w \<and>
   sent (snd (await t out w)) = sent w"
  by (cases out) (simp_all add: await_def)

lemma read_body_frame:
  "removeAll t (timers (snd (read_body pf t response w))) = removeAll t (timers w) \<and>
   next_timer (snd (read_body pf t response w)) = next_timer w \<and>
   sent (snd (read_body pf t response w)) = sent w"
proof -
  obtain r w' where a: "await t (body_text response) w = (r, w')"
    by (cases "await t (body_text response) w")
  have "removeAll t (timers w') = removeAll t (timers w) \<and> next_timer w' = next_timer w
      \<and> sent w' = sent w"
    using await_frame [of t "body_text response" w] by (simp add: a)
  then show ?thesis
    by (cases r; cases "JSON_parse pf (projr r)") (simp_all add: read_body_def a)
qed

lemma send_request_frame:
  "removeAll t (timers (snd (send_request pf cfg t u init w))) = removeAll t (timers w) \<and>
   next_timer (snd (send_request pf cfg t u init w)) = next_timer w \<and>
   sent (snd (send_request pf cfg t u init w)) =
     (case Request_new pf u (requestInit cfg t init) of
        Inl e \<Rightarrow> sent w | Inr req \<Rightarrow> sent w @ [req])"
proof (cases "Request_new pf u (requestInit cfg t init)")
  case (Inl e)
  then show ?thesis by (simp add: send_request_def)
next
  case (Inr req)
  then show ?thesis
    using await_frame [of t "fetch pf req" "w\<lparr>sent := sent w @ [req]\<rparr>"]
    by (simp add: send_request_def)
qed

lemma try_block_frame:
  "removeAll t (timers (snd (try_block pf cfg t u init w))) = removeAll t (timers w) \<and>
   next_timer (snd (try_block pf cfg t u init w)) = next_timer w \<and>
   sent (snd (try_block pf cfg t u init w)) =
     (case Request_new pf u (requestInit cfg t init) of
        Inl e \<Rightarrow> sent w | Inr req \<Rightarrow> sent w @ [req])"
proof -
  obtain r w1 where s: "send_request pf cfg t u init w = (r, w1)"
    by (cases "send_request pf cfg t u init w")
  have f1: "removeAll t (timers w1) = removeAll t (timers w) \<and> next_timer w1 = next_timer w \<and>
      sent w1 = (case Request_new pf u (requestInit cfg t init) of
        Inl e \<Rightarrow> sent w | Inr req \<Rightarrow> sent w @ [req])"
    using send_request_frame [of t pf cfg u init w] by (simp add: s)
  show ?thesis
  proof (cases r)
    case (Inl e)
    then show ?thesis using f1 by (simp add: try_block_def s)
  next
    case (Inr response)
    obtain b w2 where rb: "read_body pf t response w1 = (b, w2)"
      by (cases "read_body pf t response w1")
    have f2: "removeAll t (timers w2) = removeAll t (timers w1) \<and> next_timer w2 = next_timer w1 \<and>
        sent w2 = sent w1"
      using read_body_frame [of t pf response w1] by (simp add: rb)
    show ?thesis
      using f1 f2 by (cases b) (simp_all add: try_block_def s Inr rb)
  qed
qed

lemma fetchWithTimeout_snd:
  "snd (fetchWithTimeout pf cfg u init w) =
     clearTimeout (next_timer w) (snd (try_block pf cfg (next_timer w) u init (snd (setTimeout w))))"
  by (simp add: fetchWithTimeout_def setTimeout_def split: prod.splits sum.splits)

lemma fetchWithTimeout_fst:
  "fst (fetchWithTimeout pf cfg u init w) =
     (case fst (try_block pf cfg (next_timer w) u init (snd (setTimeout w))) of
        Inl e \<Rightarrow> Inr (handleError e) | Inr r \<Rightarrow> Inr r)"
  by (simp add: fetchWithTimeout_def setTimeout_def split: prod.splits sum.splits)

lemma fetchWithTimeout_returns: "\<exists>r. fst (fetchWithTimeout pf cfg u init w) = Inr r"
  by (simp add: fetchWithTimeout_fst split: sum.splits)

lemma fetchWithTimeout_timers:
  "timers (snd (fetchWithTimeout pf cfg u init w)) = removeAll (next_timer w) (timers w)"
  using try_block_frame [of "next_timer w" pf cfg u init "snd (setTimeout w)"]
  by (simp add: fetchWithTimeout_snd clearTimeout_def setTimeout_def)

lemma fetchWithTimeout_next_timer:
  "next_timer (snd (fetchWithTimeout pf cfg u init w)) = Suc (next_timer w)"
  using try_block_frame [of "next_timer w" pf cfg u init "snd (setTimeout w)"]
  by (simp add: fetchWithTimeout_snd clearTimeout_def setTimeout_def)

lemma fetchWithTimeout_sent:
  "sent (snd (fetchWithTimeout pf cfg u init w)) =
     (case Request_new pf u (requestInit cfg (next_timer w) init) of
        Inl e \<Rightarrow> sent w | Inr req \<Rightarrow> sent w @ [req])"
  using try_block_frame [of "next_timer w" pf cfg u init "snd (setTimeout w)"]
  by (cases "Request_new pf u (requestInit cfg (next_timer w) init)")
     (simp_all add: fetchWithTimeout_snd clearTimeout_def setTimeout_def)

text \<open>The response arrives.\<close>

lemma send_request_response:
  assumes "Request_invalid pf u (requestInit cfg t init) = None"
    and "fetch pf \<lparr>request_url = u, request_init = requestInit cfg t init\<rparr> = Resolved response"
  shows "fst (send_request pf cfg t u init w) = Inr response"
  using assms by (simp add: send_request_def Request_new_def await_def)

lemma read_body_parsed:
  assumes "body_text response = Resolved txt"
  shows "fst (read_body pf t response w) =
     (case JSON_parse pf txt of None \<Rightarrow> Inl (SyntaxError ''JSON.parse'') | Some d \<Rightarrow> Inr d)"
  using assms by (simp add: read_body_def await_def split: option.splits)

lemma try_block_response:
  assumes "fst (send_request pf cfg t u init w) = Inr response"
  shows "fst (try_block pf cfg t u init w) =
     (case fst (read_body pf t response (snd (send_request pf cfg t u init w))) of
        Inl e \<Rightarrow> Inl e
      | Inr d \<Rightarrow> Inr (if \<not> response_ok response then ApplicationError d response
                     else Success d response))"
proof -
  obtain w1 where s: "send_request pf cfg t u init w = (Inr response, w1)"
    using assms by (cases "send_request pf cfg t u init w") simp
  obtain b w2 where rb: "read_body pf t response w1 = (b, w2)"
    by (cases "read_body pf t response w1")
  show ?thesis
    by (cases b) (simp_all add: try_block_def s rb)
qed

lemma fetchWithTimeout_response:
  assumes "Request_invalid pf u (requestInit cfg (next_timer w) init) = None"
    and "fetch pf \<lparr>request_url = u, request_init = requestInit cfg (next_timer w) init\<rparr>
           = Resolved response"
    and "body_text response = Resolved txt"
  shows "fst (fetchWithTimeout pf cfg u init w) =
     (case JSON_parse pf txt of
        None \<Rightarrow> Inr (TransportError SYNTAX_ERROR (SyntaxError ''JSON.parse''))
      | Some d \<Rightarrow> Inr (if \<not> response_ok response then ApplicationError d response
                     else Success d response))"
proof -
  have s: "fst (send_request pf cfg (next_timer w) u init (snd (setTimeout w))) = Inr response"
    using assms(1,2) by (rule send_request_response)
  show ?thesis
    by (simp add: fetchWithTimeout_fst try_block_response [OF s] read_body_parsed [OF assms(3)]
        split: option.splits)
qed

lemma send_request_rejected:
  assumes "Request_invalid pf u (requestInit cfg t init) = None"
    and "fetch pf \<lparr>request_url = u, request_init = requestInit cfg t init\<rparr> = Rejected e"
  shows "fst (send_request pf cfg t u init w) = Inl e"
  using assms by (simp add: send_request_def Request_new_def await_def)

lemma send_request_aborted:
  assumes "Request_invalid pf u (requestInit cfg t init) = None"
    and "fetch pf \<lparr>request_url = u, request_init = requestInit cfg t init\<rparr> = Aborted"
  shows "fst (send_request pf cfg t u init w) = Inl AbortError"
  using assms by (simp add: send_request_def Request_new_def await_def)

lemma send_request_invalid:
  assumes "Request_invalid pf u (requestInit cfg t init) = Some e"
  shows "fst (send_request pf cfg t u init w) = Inl e"
  using assms by (simp add: send_request_def Request_new_def)

lemma try_block_no_response:
  assumes "fst (send_request pf cfg t u init w) = Inl e"
  shows "fst (try_block pf cfg t u init w) = Inl e"
  using assms by (cases "send_request pf cfg t u init w") (simp add: try_block_def)

lemma read_body_rejected:
  assumes "body_text response = Rejected e"
  shows "fst (read_body pf t response w) = Inl e"
  using assms by (simp add: read_body_def await_def)

lemma read_body_aborted:
  assumes "body_text response = Aborted"
  shows "fst (read_body pf t response w) = Inl AbortError"
  using assms by (simp add: read_body_def await_def)

lemma code_by_kind_AbortError: "code_by_kind AbortError = TIMEOUT"
  by (simp add: AbortError_def)

lemma fetchWithTimeout_no_response:
  assumes "fst (send_request pf cfg (next_timer w) u init (snd (setTimeout w))) = Inl e"
  shows "fst (fetchWithTimeout pf cfg u init w) = Inr (TransportError (code_by_kind e) e)"
  by (simp add: fetchWithTimeout_fst try_block_no_response [OF assms] handleError_code)

lemma fetchWithTimeout_body_error:
  assumes "fst (send_request pf cfg (next_timer w) u init (snd (setTimeout w))) = Inr response"
    and "fst (read_body pf (next_timer w) response
            (snd (send_request pf cfg (next_timer w) u init (snd (setTimeout w))))) = Inl e"
  shows "fst (fetchWithTimeout pf cfg u init w) = Inr (TransportError (code_by_kind e) e)"
  by (simp add: fetchWithTimeout_fst try_block_response [OF assms(1)] assms(2) handleError_code)

lemma try_block_ApplicationError:
  assumes "fst (try_block pf cfg t u init w) = Inr (ApplicationError d r)"
  shows "\<not> response_ok r \<and> (\<exists>txt. body_text r = Resolved txt \<and> JSON_parse pf txt = Some d)"
proof -
  obtain x w1 where s: "send_request pf cfg t u init w = (x, w1)"
    by (cases "send_request pf cfg t u init w")
  show ?thesis
  proof (cases x)
    case (Inl e)
    then show ?thesis using assms by (simp add: try_block_def s)
  next
    case (Inr response)
    obtain b w2 where rb: "read_body pf t response w1 = (b, w2)"
      by (cases "read_body pf t response w1")
    from assms have b: "b = Inr d" and r: "r = response" and nok: "\<not> response_ok response"
      by (cases b; simp add: try_block_def s Inr rb split: if_splits)+
    have "\<exists>txt. body_text response = Resolved txt \<and> JSON_parse pf txt = Some d"
      using rb b
      by (cases "body_text response")
         (auto simp: read_body_def await_def split: option.splits)
    then show ?thesis using r nok by simp
  qed
qed

subsection \<open>The primitives\<close>

lemma requestInit_of_post:
  "requestInit cfg t
     [''method'' \<mapsto> Str ''POST'',
      ''headers'' \<mapsto> HeadersValue [(''Content-Type'', ''application/json'')],
      ''body'' \<mapsto> Str body] ''method'' = Some (Str ''POST'') \<and>
   requestInit cfg t
     [''method'' \<mapsto> Str ''POST'',
      ''headers'' \<mapsto> HeadersValue [(''Content-Type'', ''application/json'')],
      ''body'' \<mapsto> Str body] ''body'' = Some (Str body)"
  by (cases "config_request cfg") (simp_all add: requestInit_def mergeRequests_field)

lemma post_sent:
  assumes "URL_new pf (API_URL cfg @ path) = Inr u"
    and "JSON_stringify pf (case payload of None \<Rightarrow> [] | Some p \<Rightarrow> p) = Inr body"
    and "Request_invalid pf u
           (requestInit cfg (next_timer w)
              [''method'' \<mapsto> Str ''POST'',
               ''headers'' \<mapsto> HeadersValue [(''Content-Type'', ''application/json'')],
               ''body'' \<mapsto> Str body]) = None"
  shows "sent (snd (post pf cfg path None payload w)) =
     sent w @ [\<lparr>request_url = u,
                 request_init = requestInit cfg (next_timer w)
                   [''method'' \<mapsto> Str ''POST'',
                    ''headers'' \<mapsto> HeadersValue [(''Content-Type'', ''application/json'')],
                    ''body'' \<mapsto> Str body]\<rparr>]"
  using assms by (simp add: post_def buildUrl_def fetchWithTimeout_sent Request_new_def)

lemma fetchWithTimeout_not_thrown: "\<not> isl (fst (fetchWithTimeout pf cfg u init w))"
  using fetchWithTimeout_returns [of pf cfg u init w] by auto

lemma get_returns:
  "\<not> isl (URL_new pf (API_URL cfg @ path)) \<Longrightarrow> \<not> isl (fst (get pf cfg path params w))"
  by (cases "URL_new pf (API_URL cfg @ path)"; cases params)
     (simp_all add: get_def buildUrl_def fetchWithTimeout_not_thrown)

lemma post_returns:
  "\<not> isl (URL_new pf (API_URL cfg @ path)) \<Longrightarrow>
   \<not> isl (JSON_stringify pf (case payload of None \<Rightarrow> [] | Some p \<Rightarrow> p)) \<Longrightarrow>
   \<not> isl (fst (post pf cfg path params payload w))"
proof -
  assume a: "\<not> isl (URL_new pf (API_URL cfg @ path))"
    and b: "\<not> isl (JSON_stringify pf (case payload of None \<Rightarrow> [] | Some p \<Rightarrow> p))"
  from a obtain u where u: "buildUrl pf (API_URL cfg) path params = Inr u"
    by (cases "URL_new pf (API_URL cfg @ path)"; cases params) (auto simp: buildUrl_def)
  from b obtain body where
    body: "JSON_stringify pf (case payload of None \<Rightarrow> [] | Some p \<Rightarrow> p) = Inr body"
    by (cases "JSON_stringify pf (case payload of None \<Rightarrow> [] | Some p \<Rightarrow> p)") auto
  show ?thesis by (simp add: post_def u body fetchWithTimeout_not_thrown)
qed

section \<open>The client on the example service\<close>

lemma buildUrl_example:
  "buildUrl (mock_platform :: (json, unit) platform) ''https://infinibrowser.wiki/api'' ''/recipes''
     (Some [(''id'', PString ''Water''), (''offset'', PNumber 20), (''lang'', PNull),
            (''exact'', PBoolean True), (''tag'', PUndefined)]) =
   Inr \<lparr>href = ''https://infinibrowser.wiki/api/recipes'',
        searchParams = [(''id'', ''Water''), (''offset'', ''20''), (''exact'', ''true'')]\<rparr>"
  by code_simp

lemma getItem_Water_example:
  "fst (getItem (mock_platform :: (json, unit) platform) DEFAULT_OPTIONS ''Water'' idle) =
     Inr (Success (JObject [(''text'', JString ''Water'')])
            \<lparr>status = 200, body_text = Resolved ''{\"text\":\"Water\"}''\<rparr>)"
  by code_simp

lemma getRecipes_request_example:
  "map (\<lambda>r. (href (request_url r), searchParams (request_url r), request_init r ''method'',
             request_init r ''body'', request_init r ''signal'',
             Headers_get (headers_of (request_init r)) ''Accept'',
             Headers_get (headers_of (request_init r)) ''Accept-Encoding''))
     (sent (snd (getRecipes (mock_platform :: (json, unit) platform) DEFAULT_OPTIONS
        ''Water'' None idle))) =
   [(''https://infinibrowser.wiki/api/recipes'', [(''id'', ''Water''), (''offset'', ''0'')],
     Some (Str ''GET''), None, Some (AbortSignal 0),
     Some ''application/json'', Some ''gzip, deflate, identity'')]"
  by code_simp

section \<open>The claims\<close>

text \<open>
  C1. When the platform accepts the request, \<^verbatim>\<open>fetch\<close> resolves with a response whose
  status is not 2xx, and the body of the response is text that \<^verbatim>\<open>JSON.parse\<close> parses, the
  timeout-guarded send returns (it does not throw) the result with \<^verbatim>\<open>ok: false\<close>, the
  error code \<^verbatim>\<open>NOT_OK\<close>, the parsed body as its data and the response itself. The witness
  is \<^verbatim>\<open>getItem\<close> on an element the service answers with 404 and
  \<^verbatim>\<open>{"code":404,"message":"Unknown element"}\<close>.
\<close>

theorem fetchWithTimeout_not_ok:
  assumes "Request_invalid pf u (requestInit cfg (next_timer w) init) = None"
    and "fetch pf \<lparr>request_url = u, request_init = requestInit cfg (next_timer w) init\<rparr>
           = Resolved response"
    and "\<not> response_ok response"
    and "body_text response = Resolved txt"
    and "JSON_parse pf txt = Some d"
  shows "fst (fetchWithTimeout pf cfg u init w) = Inr (ApplicationError d response) \<and>
         \<not> ok (ApplicationError d response) \<and>
         error_code_of (ApplicationError d response) = Some ''NOT_OK''"
  using assms(3,5) by (simp add: fetchWithTimeout_response [OF assms(1,2,4)])

theorem fetchWithTimeout_not_ok_witness:
  "\<not> response_ok \<lparr>status = 404,
        body_text = Resolved ''{\"code\":404,\"message\":\"Unknown element\"}''\<rparr> \<and>
   JSON_parse (mock_platform :: (json, unit) platform)
       ''{\"code\":404,\"message\":\"Unknown element\"}''
     = Some (JObject [(''code'', JNumber 404), (''message'', JString ''Unknown element'')]) \<and>
   fst (getItem (mock_platform :: (json, unit) platform) DEFAULT_OPTIONS ''Fire'' idle) =
     Inr (ApplicationError
            (JObject [(''code'', JNumber 404), (''message'', JString ''Unknown element'')])
            \<lparr>status = 404,
               body_text = Resolved ''{\"code\":404,\"message\":\"Unknown element\"}''\<rparr>)"
proof -
  let ?pf = "mock_platform :: (json, unit) platform"
  let ?u = "\<lparr>href = ''https://infinibrowser.wiki/api/item'', searchParams = [(''id'', ''Fire'')]\<rparr>"
  let ?init = "[''method'' \<mapsto> Str ''GET'',
                ''headers'' \<mapsto> HeadersValue [(''Accept'', ''application/json'')]]"
  let ?txt = "''{\"code\":404,\"message\":\"Unknown element\"}''"
  let ?response = "\<lparr>status = 404, body_text = Resolved ?txt\<rparr>"
  let ?d = "JObject [(''code'', JNumber 404), (''message'', JString ''Unknown element'')]"
  have call: "getItem ?pf DEFAULT_OPTIONS ''Fire'' idle = fetchWithTimeout ?pf DEFAULT_OPTIONS ?u ?init idle"
    by (simp add: getItem_def get_def buildUrl_def Object_entries_id mock_platform_def
        mock_URL_def DEFAULT_OPTIONS_def)
  have h1: "Request_invalid ?pf ?u (requestInit DEFAULT_OPTIONS (next_timer idle) ?init) = None"
    by (simp add: mock_platform_def)
  have h2: "fetch ?pf \<lparr>request_url = ?u,
        request_init = requestInit DEFAULT_OPTIONS (next_timer idle) ?init\<rparr> = Resolved ?response"
    by (simp add: mock_platform_def mock_fetch_def)
  have h3: "\<not> response_ok ?response" by (simp add: response_ok_def)
  have h4: "body_text ?response = Resolved ?txt" by simp
  have h5: "JSON_parse ?pf ?txt = Some ?d" by (simp add: mock_platform_def mock_parse_def)
  show ?thesis
    using fetchWithTimeout_not_ok [OF h1 h2 h3 h4 h5] h3 h5 by (simp only: call simp_thms)
qed

text \<open>
  C2. An exception \<open>e\<close> raised inside the \<^verbatim>\<open>try\<close> block of the timeout-guarded send is
  returned as the transport error that carries \<open>e\<close>, with the code of its kind
  (\<open>code_by_kind\<close>: a \<^verbatim>\<open>SyntaxError\<close> gives \<^verbatim>\<open>SYNTAX_ERROR\<close>, the abort gives \<^verbatim>\<open>TIMEOUT\<close>,
  anything else \<^verbatim>\<open>UNKNOWN_ERROR\<close>), and the send never throws. Source by source: what
  \<^verbatim>\<open>new Request\<close> throws, what \<^verbatim>\<open>fetch\<close> or the reading of the body rejects with, the
  abort of the timer while either is awaited (\<^verbatim>\<open>TIMEOUT\<close>), and a body that
  \<^verbatim>\<open>JSON.parse\<close> rejects (\<^verbatim>\<open>SYNTAX_ERROR\<close>).
\<close>

theorem fetchWithTimeout_catches:
  fixes pf :: "('j, 'v) platform" and cfg :: InfinibrowserConfig and w :: world
    and u :: url and init :: RequestInit
  defines "R \<equiv> requestInit cfg (next_timer w) init"
  defines "req \<equiv> \<lparr>request_url = u, request_init = requestInit cfg (next_timer w) init\<rparr>"
  shows
  "(try_block pf cfg (next_timer w) u init (snd (setTimeout w)) = (Inl e, w1) \<longrightarrow>
      fetchWithTimeout pf cfg u init w
        = (Inr (TransportError (code_by_kind e) e), clearTimeout (next_timer w) w1)) \<and>
   (\<exists>r. fst (fetchWithTimeout pf cfg u init w) = Inr r) \<and>
   (Request_invalid pf u R = Some e \<longrightarrow>
      fst (fetchWithTimeout pf cfg u init w) = Inr (TransportError (code_by_kind e) e)) \<and>
   (Request_invalid pf u R = None \<and> fetch pf req = Rejected e \<longrightarrow>
      fst (fetchWithTimeout pf cfg u init w) = Inr (TransportError (code_by_kind e) e)) \<and>
   (Request_invalid pf u R = None \<and> fetch pf req = Aborted \<longrightarrow>
      fst (fetchWithTimeout pf cfg u init w) = Inr (TransportError TIMEOUT AbortError)) \<and>
   (Request_invalid pf u R = None \<and> fetch pf req = Resolved response \<and>
      body_text response = Rejected e \<longrightarrow>
      fst (fetchWithTimeout pf cfg u init w) = Inr (TransportError (code_by_kind e) e)) \<and>
   (Request_invalid pf u R = None \<and> fetch pf req = Resolved response \<and>
      body_text response = Aborted \<longrightarrow>
      fst (fetchWithTimeout pf cfg u init w) = Inr (TransportError TIMEOUT AbortError)) \<and>
   (Request_invalid pf u R = None \<and> fetch pf req = Resolved response \<and>
      body_text response = Resolved txt \<and> JSON_parse pf txt = None \<longrightarrow>
      fst (fetchWithTimeout pf cfg u init w)
        = Inr (TransportError SYNTAX_ERROR (SyntaxError ''JSON.parse'')))"
proof -
  let ?t = "next_timer w"
  let ?w0 = "snd (setTimeout w)"
  have caught: "fetchWithTimeout pf cfg u init w
        = (Inr (TransportError (code_by_kind e) e), clearTimeout ?t w1)"
    if "try_block pf cfg ?t u init ?w0 = (Inl e, w1)"
    using that by (simp add: fetchWithTimeout_def setTimeout_def handleError_code)
  have invalid: "fst (fetchWithTimeout pf cfg u init w) = Inr (TransportError (code_by_kind e) e)"
    if "Request_invalid pf u R = Some e"
    using that unfolding R_def
    by (intro fetchWithTimeout_no_response send_request_invalid)
  have rejected: "fst (fetchWithTimeout pf cfg u init w) = Inr (TransportError (code_by_kind e) e)"
    if "Request_invalid pf u R = None" "fetch pf req = Rejected e"
    using that unfolding R_def req_def
    by (intro fetchWithTimeout_no_response send_request_rejected)
  have aborted: "fst (fetchWithTimeout pf cfg u init w) = Inr (TransportError TIMEOUT AbortError)"
    if "Request_invalid pf u R = None" "fetch pf req = Aborted"
    using fetchWithTimeout_no_response [OF send_request_aborted, of pf u cfg w init]
      that unfolding R_def req_def
    by (simp add: code_by_kind_AbortError)
  have body_rejected:
    "fst (fetchWithTimeout pf cfg u init w) = Inr (TransportError (code_by_kind e) e)"
    if "Request_invalid pf u R = None" "fetch pf req = Resolved response"
      "body_text response = Rejected e"
    using that unfolding R_def req_def
    by (intro fetchWithTimeout_body_error send_request_response read_body_rejected)
  have body_aborted:
    "fst (fetchWithTimeout pf cfg u init w) = Inr (TransportError TIMEOUT AbortError)"
    if "Request_invalid pf u R = None" "fetch pf req = Resolved response"
      "body_text response = Aborted"
  proof -
    have "fst (fetchWithTimeout pf cfg u init w)
        = Inr (TransportError (code_by_kind AbortError) AbortError)"
      using that unfolding R_def req_def
      by (intro fetchWithTimeout_body_error send_request_response read_body_aborted)
    then show ?thesis by (simp add: code_by_kind_AbortError)
  qed
  have not_json: "fst (fetchWithTimeout pf cfg u init w)
        = Inr (TransportError SYNTAX_ERROR (SyntaxError ''JSON.parse''))"
    if "Request_invalid pf u R = None" "fetch pf req = Resolved response"
      "body_text response = Resolved txt" "JSON_parse pf txt = None"
    using that unfolding R_def req_def
    by (simp add: fetchWithTimeout_response)
  show ?thesis
    using caught fetchWithTimeout_returns [of pf cfg u init w]
      invalid rejected aborted body_rejected body_aborted not_json
    by blast
qed

theorem fetchWithTimeout_catches_witness:
  "fetch (mock_platform :: (json, unit) platform)
     \<lparr>request_url = \<lparr>href = ''https://infinibrowser.wiki/api/item'',
                      searchParams = [(''id'', ''Slow'')]\<rparr>,
      request_init = requestInit DEFAULT_OPTIONS (next_timer idle)
        [''method'' \<mapsto> Str ''GET'',
         ''headers'' \<mapsto> HeadersValue [(''Accept'', ''application/json'')]]\<rparr> = Aborted \<and>
   fst (getItem (mock_platform :: (json, unit) platform) DEFAULT_OPTIONS ''Slow'' idle) =
     Inr (TransportError TIMEOUT (DOMException ''AbortError'' ''The operation was aborted.''))"
proof -
  let ?pf = "mock_platform :: (json, unit) platform"
  let ?u = "\<lparr>href = ''https://infinibrowser.wiki/api/item'', searchParams = [(''id'', ''Slow'')]\<rparr>"
  let ?init = "[''method'' \<mapsto> Str ''GET'',
                ''headers'' \<mapsto> HeadersValue [(''Accept'', ''application/json'')]]"
  have call: "getItem ?pf DEFAULT_OPTIONS ''Slow'' idle
      = fetchWithTimeout ?pf DEFAULT_OPTIONS ?u ?init idle"
    by (simp add: getItem_def get_def buildUrl_def Object_entries_id mock_platform_def
        mock_URL_def DEFAULT_OPTIONS_def)
  have h1: "Request_invalid ?pf ?u (requestInit DEFAULT_OPTIONS (next_timer idle) ?init) = None"
    by (simp add: mock_platform_def)
  have h2: "fetch ?pf \<lparr>request_url = ?u,
        request_init = requestInit DEFAULT_OPTIONS (next_timer idle) ?init\<rparr> = Aborted"
    by (simp add: mock_platform_def mock_fetch_def)
  have "fst (fetchWithTimeout ?pf DEFAULT_OPTIONS ?u ?init idle)
      = Inr (TransportError TIMEOUT AbortError)"
    using fetchWithTimeout_catches
      [of ?pf DEFAULT_OPTIONS idle ?u ?init undefined undefined undefined undefined]
      h1 h2 by blast
  then show ?thesis
    using h2 by (simp only: call AbortError_def simp_thms)
qed

text \<open>
  C3 (as amended). \<^verbatim>\<open>buildUrl\<close> parses base URL plus path and appends to the URL's query
  entries, after the ones it has, the parameters whose value is neither \<^verbatim>\<open>null\<close> nor
  \<^verbatim>\<open>undefined\<close>, each as its string form, in the order in which \<^verbatim>\<open>Object.entries\<close>
  enumerates the mapping: the names that are array indices first, in ascending numeric
  order, then the other names in the order in which they were added. No entry is
  replaced, and the parameters with \<^verbatim>\<open>null\<close> or \<^verbatim>\<open>undefined\<close> are left out. When no name
  of the mapping is an array index, the order is the insertion order. What \<^verbatim>\<open>new URL\<close>
  throws is thrown.
\<close>

theorem buildUrl_appends:
  "buildUrl pf api_url path params =
     (case URL_new pf (api_url @ path) of
        Inl e \<Rightarrow> Inl e
      | Inr u \<Rightarrow>
          Inr (u\<lparr>searchParams := searchParams u @
                 map (\<lambda>(key, v). (key, String_of (Number_toString pf) v))
                   (filter (\<lambda>(key, v). v \<noteq> PNull \<and> v \<noteq> PUndefined)
                      (case params of
                         None \<Rightarrow> []
                       | Some ps \<Rightarrow>
                           sort_key (\<lambda>(key, v). number_of key)
                             (filter (\<lambda>(key, v). is_array_index key) ps) @
                           filter (\<lambda>(key, v). \<not> is_array_index key) ps))\<rparr>)) \<and>
   (list_all (\<lambda>(key, v). \<not> is_array_index key) ps \<longrightarrow>
      buildUrl pf api_url path (Some ps) =
        (case URL_new pf (api_url @ path) of
           Inl e \<Rightarrow> Inl e
         | Inr u \<Rightarrow>
             Inr (u\<lparr>searchParams := searchParams u @
                    map (\<lambda>(key, v). (key, String_of (Number_toString pf) v))
                      (filter (\<lambda>(key, v). v \<noteq> PNull \<and> v \<noteq> PUndefined) ps)\<rparr>)))"
proof (intro conjI impI)
  show "buildUrl pf api_url path params =
     (case URL_new pf (api_url @ path) of
        Inl e \<Rightarrow> Inl e
      | Inr u \<Rightarrow>
          Inr (u\<lparr>searchParams := searchParams u @
                 map (\<lambda>(key, v). (key, String_of (Number_toString pf) v))
                   (filter (\<lambda>(key, v). v \<noteq> PNull \<and> v \<noteq> PUndefined)
                      (case params of
                         None \<Rightarrow> []
                       | Some ps \<Rightarrow>
                           sort_key (\<lambda>(key, v). number_of key)
                             (filter (\<lambda>(key, v). is_array_index key) ps) @
                           filter (\<lambda>(key, v). \<not> is_array_index key) ps))\<rparr>))"
    by (cases "URL_new pf (api_url @ path)"; cases params)
       (simp_all add: buildUrl_def append_params_filter Object_entries_def)
next
  assume "list_all (\<lambda>(key, v). \<not> is_array_index key) ps"
  then have "Object_entries ps = ps" by (rule Object_entries_no_index)
  then show "buildUrl pf api_url path (Some ps) =
        (case URL_new pf (api_url @ path) of
           Inl e \<Rightarrow> Inl e
         | Inr u \<Rightarrow>
             Inr (u\<lparr>searchParams := searchParams u @
                    map (\<lambda>(key, v). (key, String_of (Number_toString pf) v))
                      (filter (\<lambda>(key, v). v \<noteq> PNull \<and> v \<noteq> PUndefined) ps)\<rparr>))"
    by (cases "URL_new pf (api_url @ path)") (simp_all add: buildUrl_def append_params_filter)
qed

theorem buildUrl_appends_witness:
  "list_all (\<lambda>(key, v). \<not> is_array_index key)
     [(''id'', PString ''Water''), (''lang'', PNull), (''offset'', PNumber 20)] \<and>
   buildUrl (mock_platform :: (json, unit) platform) ''https://infinibrowser.wiki/api'' ''/recipes''
     (Some [(''id'', PString ''Water''), (''lang'', PNull), (''offset'', PNumber 20)]) =
   Inr \<lparr>href = ''https://infinibrowser.wiki/api/recipes'',
        searchParams = [(''id'', ''Water''), (''offset'', ''20'')]\<rparr>"
proof -
  let ?pf = "mock_platform :: (json, unit) platform"
  let ?ps = "[(''id'', PString ''Water''), (''lang'', PNull), (''offset'', PNumber 20)]"
  have h: "list_all (\<lambda>(key, v). \<not> is_array_index key) ?ps" by code_simp
  have rhs: "(case URL_new ?pf (''https://infinibrowser.wiki/api'' @ ''/recipes'') of
           Inl e \<Rightarrow> Inl e
         | Inr u \<Rightarrow>
             Inr (u\<lparr>searchParams := searchParams u @
                    map (\<lambda>(key, v). (key, String_of (Number_toString ?pf) v))
                      (filter (\<lambda>(key, v). v \<noteq> PNull \<and> v \<noteq> PUndefined) ?ps)\<rparr>)) =
      Inr \<lparr>href = ''https://infinibrowser.wiki/api/recipes'',
           searchParams = [(''id'', ''Water''), (''offset'', ''20'')]\<rparr>"
    by code_simp
  have "buildUrl ?pf ''https://infinibrowser.wiki/api'' ''/recipes'' (Some ?ps) =
      Inr \<lparr>href = ''https://infinibrowser.wiki/api/recipes'',
           searchParams = [(''id'', ''Water''), (''offset'', ''20'')]\<rparr>"
    using buildUrl_appends [of ?pf "''https://infinibrowser.wiki/api''" "''/recipes''" None ?ps] h
    unfolding rhs by blast
  then show ?thesis using h by blast
qed

text \<open>
  C3 as stated fails: the order is not the insertion order of the mapping when a name is
  an array index. The properties \<^verbatim>\<open>b\<close>, \<^verbatim>\<open>2\<close>, \<^verbatim>\<open>a\<close>, \<^verbatim>\<open>1\<close>, added in this order, come out
  as \<^verbatim>\<open>1\<close>, \<^verbatim>\<open>2\<close>, \<^verbatim>\<open>b\<close>.
\<close>

theorem buildUrl_order_counterexample:
  "buildUrl (mock_platform :: (json, unit) platform) ''https://infinibrowser.wiki/api'' ''/item''
     (Some [(''b'', PString ''x''), (''2'', PString ''y''), (''a'', PNull), (''1'', PString ''z'')]) =
   Inr \<lparr>href = ''https://infinibrowser.wiki/api/item'',
        searchParams = [(''1'', ''z''), (''2'', ''y''), (''b'', ''x'')]\<rparr> \<and>
   buildUrl (mock_platform :: (json, unit) platform) ''https://infinibrowser.wiki/api'' ''/item''
     (Some [(''b'', PString ''x''), (''2'', PString ''y''), (''a'', PNull), (''1'', PString ''z'')]) \<noteq>
   Inr \<lparr>href = ''https://infinibrowser.wiki/api/item'',
        searchParams = [(''b'', ''x''), (''2'', ''y''), (''1'', ''z'')]\<rparr>"
  by code_simp

text \<open>
  C4 (as amended). \<^verbatim>\<open>$refined\<close> returns a new configuration, the shallow merge of the
  current one and the given one: the base URL and the timeout are the given
  configuration's, and the request options are the given configuration's when it has the
  property \<^verbatim>\<open>request\<close>, the current ones otherwise. Request options replace the current
  ones wholesale, headers included. The function changes no value: the current
  configuration is an argument it only reads.
\<close>

theorem refined_shallow_merge:
  "API_URL (refined this config) = API_URL config \<and>
   timeout (refined this config) = timeout config \<and>
   (request config = Absent \<longrightarrow> request (refined this config) = request this) \<and>
   (request config \<noteq> Absent \<longrightarrow> request (refined this config) = request config) \<and>
   (config_request config = Some r \<longrightarrow>
      config_request (refined this config) = Some r \<and>
      config_headers (refined this config) = Headers_new (headers_of r))"
  by (cases "request config") (simp_all add: refined_def config_request_def config_headers_def)

theorem refined_shallow_merge_witness:
  "request \<lparr>API_URL = ''https://infinibrowser.wiki/api'', timeout = 5000,
             request = Defined [''headers'' \<mapsto> HeadersValue [(''Accept-Language'', ''en'')]]\<rparr>
     \<noteq> Absent \<and>
   timeout (refined
       \<lparr>API_URL = ''https://infinibrowser.wiki/api'', timeout = 1000,
          request = Defined [''headers'' \<mapsto> HeadersValue [(''X-Token'', ''abc'')]]\<rparr>
       \<lparr>API_URL = ''https://infinibrowser.wiki/api'', timeout = 5000,
          request = Defined [''headers'' \<mapsto> HeadersValue [(''Accept-Language'', ''en'')]]\<rparr>)
     = 5000 \<and>
   config_headers (refined
       \<lparr>API_URL = ''https://infinibrowser.wiki/api'', timeout = 1000,
          request = Defined [''headers'' \<mapsto> HeadersValue [(''X-Token'', ''abc'')]]\<rparr>
       \<lparr>API_URL = ''https://infinibrowser.wiki/api'', timeout = 5000,
          request = Defined [''headers'' \<mapsto> HeadersValue [(''Accept-Language'', ''en'')]]\<rparr>)
     = [(''accept-language'', ''en'')] \<and>
   request (refined
       \<lparr>API_URL = ''https://infinibrowser.wiki/api'', timeout = 1000,
          request = Defined [''headers'' \<mapsto> HeadersValue [(''X-Token'', ''abc'')]]\<rparr>
       \<lparr>API_URL = ''https://infinibrowser.wiki/api'', timeout = 5000, request = Absent\<rparr>)
     = Defined [''headers'' \<mapsto> HeadersValue [(''X-Token'', ''abc'')]]"
proof -
  let ?base = "\<lparr>API_URL = ''https://infinibrowser.wiki/api'', timeout = 1000,
          request = Defined [''headers'' \<mapsto> HeadersValue [(''X-Token'', ''abc'')]]\<rparr>"
  let ?r = "[''headers'' \<mapsto> HeadersValue [(''Accept-Language'', ''en'')]]"
  let ?config = "\<lparr>API_URL = ''https://infinibrowser.wiki/api'', timeout = 5000,
          request = Defined ?r\<rparr>"
  let ?bare = "\<lparr>API_URL = ''https://infinibrowser.wiki/api'', timeout = 5000,
          request = (Absent :: RequestInit optional)\<rparr>"
  have h1: "request ?config \<noteq> Absent" by simp
  have h2: "config_request ?config = Some ?r" by (simp add: config_request_def)
  have h3: "request ?bare = Absent" by simp
  have n: "Headers_new (headers_of ?r) = [(''accept-language'', ''en'')]" by code_simp
  have a: "timeout (refined ?base ?config) = 5000"
    and b: "config_headers (refined ?base ?config) = Headers_new (headers_of ?r)"
    using refined_shallow_merge [of ?base ?config ?r] h1 h2 by simp_all
  have c: "request (refined ?base ?bare) = request ?base"
    using refined_shallow_merge [of ?base ?bare ?r] h3 by blast
  show ?thesis
    using h1 a b c unfolding n by simp
qed

text \<open>
  C4 as stated fails: the headers are not merged key by key. A header of the current
  configuration that the given request options do not name is gone after the refinement.
\<close>

theorem refined_headers_counterexample:
  "Headers_get
     (config_headers
        \<lparr>API_URL = ''https://infinibrowser.wiki/api'', timeout = 1000,
           request = Defined [''headers'' \<mapsto> HeadersValue [(''X-Token'', ''abc'')]]\<rparr>)
     ''X-Token'' = Some ''abc'' \<and>
   Headers_get
     (config_headers
        (refined
           \<lparr>API_URL = ''https://infinibrowser.wiki/api'', timeout = 1000,
              request = Defined [''headers'' \<mapsto> HeadersValue [(''X-Token'', ''abc'')]]\<rparr>
           \<lparr>API_URL = ''https://infinibrowser.wiki/api'', timeout = 5000,
              request = Defined [''headers'' \<mapsto> HeadersValue [(''Accept-Language'', ''en'')]]\<rparr>))
     ''X-Token'' = None \<and>
   Headers_get
     (config_headers
        (refined
           \<lparr>API_URL = ''https://infinibrowser.wiki/api'', timeout = 1000,
              request = Defined [''headers'' \<mapsto> HeadersValue [(''X-Token'', ''abc'')]]\<rparr>
           \<lparr>API_URL = ''https://infinibrowser.wiki/api'', timeout = 5000,
              request = Defined [''headers'' \<mapsto> HeadersValue [(''Accept-Language'', ''en'')]]\<rparr>))
     ''Accept-Language'' = Some ''en''"
  by code_simp




text \<open>
  C6. On the empty sequence \<^verbatim>\<open>shareLineage\<close> throws its error
  \<^verbatim>\<open>Lineage must not be empty\<close> and changes nothing: no timer is started and no request is
  handed to \<^verbatim>\<open>fetch\<close>. The error is thrown, it is not a result value.
\<close>

theorem shareLineage_empty:
  "shareLineage pf cfg [] w = (Inl (Error ''Lineage must not be empty''), w)"
  by (simp add: shareLineage_def)

text \<open>
  C7. On a sequence of steps that is not empty, \<^verbatim>\<open>shareLineage\<close> is the POST primitive on
  the path \<^verbatim>\<open>/analytics/share\<close> with the payload \<^verbatim>\<open>{id, emoji, steps}\<close>, where \<^verbatim>\<open>id\<close> and
  \<^verbatim>\<open>emoji\<close> are those of the third component of the last step and \<^verbatim>\<open>steps\<close> is the whole
  sequence; and where base URL plus path parse to \<open>u\<close>, the payload serialises to \<open>body\<close>
  and the platform accepts the request, exactly one request is handed to \<^verbatim>\<open>fetch\<close>: the one
  to \<open>u\<close> with the method POST and the body \<open>body\<close>.
\<close>

theorem shareLineage_sends:
  fixes pf :: "('j, ('a, 'b) unknown) platform" and steps :: "('a, 'b) step list"
  defines "payload \<equiv>
     [(''id'', StringValue (id' (snd (snd (last steps))))),
      (''emoji'', StringValue (emoji (snd (snd (last steps))))),
      (''steps'', StepsValue steps)]"
  assumes "steps \<noteq> []"
  shows "shareLineage pf cfg steps w = post pf cfg ''/analytics/share'' None (Some payload) w \<and>
    (URL_new pf (API_URL cfg @ ''/analytics/share'') = Inr u \<and>
     JSON_stringify pf payload = Inr body \<and>
     Request_invalid pf u
       (requestInit cfg (next_timer w)
          [''method'' \<mapsto> Str ''POST'',
           ''headers'' \<mapsto> HeadersValue [(''Content-Type'', ''application/json'')],
           ''body'' \<mapsto> Str body]) = None
     \<longrightarrow> (\<exists>R. sent (snd (shareLineage pf cfg steps w))
                = sent w @ [\<lparr>request_url = u, request_init = R\<rparr>] \<and>
              R ''method'' = Some (Str ''POST'') \<and> R ''body'' = Some (Str body)))"
proof -
  have eq: "shareLineage pf cfg steps w = post pf cfg ''/analytics/share'' None (Some payload) w"
    using assms(2) by (cases steps) (simp_all add: shareLineage_def payload_def Let_def)
  have "\<exists>R. sent (snd (shareLineage pf cfg steps w))
                = sent w @ [\<lparr>request_url = u, request_init = R\<rparr>] \<and>
              R ''method'' = Some (Str ''POST'') \<and> R ''body'' = Some (Str body)"
    if h: "URL_new pf (API_URL cfg @ ''/analytics/share'') = Inr u"
      "JSON_stringify pf payload = Inr body"
      "Request_invalid pf u
       (requestInit cfg (next_timer w)
          [''method'' \<mapsto> Str ''POST'',
           ''headers'' \<mapsto> HeadersValue [(''Content-Type'', ''application/json'')],
           ''body'' \<mapsto> Str body]) = None"
  proof -
    have "sent (snd (post pf cfg ''/analytics/share'' None (Some payload) w)) =
      sent w @ [\<lparr>request_url = u,
                 request_init = requestInit cfg (next_timer w)
                   [''method'' \<mapsto> Str ''POST'',
                    ''headers'' \<mapsto> HeadersValue [(''Content-Type'', ''application/json'')],
                    ''body'' \<mapsto> Str body]\<rparr>]"
      using h by (intro post_sent) simp_all
    then show ?thesis
      using requestInit_of_post [of cfg "next_timer w" body] unfolding eq by blast
  qed
  then show ?thesis using eq by blast
qed

theorem shareLineage_sends_witness:
  "[(\<lparr>id' = ''Water'', emoji = ''W''\<rparr>, \<lparr>id' = ''Fire'', emoji = ''F''\<rparr>,
     \<lparr>id' = ''Steam'', emoji = ''S''\<rparr>),
    (\<lparr>id' = ''Steam'', emoji = ''S''\<rparr>, \<lparr>id' = ''Earth'', emoji = ''E''\<rparr>,
     \<lparr>id' = ''Geyser'', emoji = ''G''\<rparr>)] \<noteq> [] \<and>
   shareLineage (mock_platform :: (json, (element, element) unknown) platform) DEFAULT_OPTIONS
     [(\<lparr>id' = ''Water'', emoji = ''W''\<rparr>, \<lparr>id' = ''Fire'', emoji = ''F''\<rparr>,
       \<lparr>id' = ''Steam'', emoji = ''S''\<rparr>),
      (\<lparr>id' = ''Steam'', emoji = ''S''\<rparr>, \<lparr>id' = ''Earth'', emoji = ''E''\<rparr>,
       \<lparr>id' = ''Geyser'', emoji = ''G''\<rparr>)] idle =
   post mock_platform DEFAULT_OPTIONS ''/analytics/share'' None
     (Some [(''id'', StringValue ''Geyser''), (''emoji'', StringValue ''G''),
            (''steps'', StepsValue
               [(\<lparr>id' = ''Water'', emoji = ''W''\<rparr>, \<lparr>id' = ''Fire'', emoji = ''F''\<rparr>,
                 \<lparr>id' = ''Steam'', emoji = ''S''\<rparr>),
                (\<lparr>id' = ''Steam'', emoji = ''S''\<rparr>, \<lparr>id' = ''Earth'', emoji = ''E''\<rparr>,
                 \<lparr>id' = ''Geyser'', emoji = ''G''\<rparr>)])]) idle \<and>
   map (\<lambda>r. (href (request_url r), request_init r ''method'', request_init r ''body''))
     (sent (snd (shareLineage (mock_platform :: (json, (element, element) unknown) platform)
        DEFAULT_OPTIONS
        [(\<lparr>id' = ''Water'', emoji = ''W''\<rparr>, \<lparr>id' = ''Fire'', emoji = ''F''\<rparr>,
          \<lparr>id' = ''Steam'', emoji = ''S''\<rparr>),
         (\<lparr>id' = ''Steam'', emoji = ''S''\<rparr>, \<lparr>id' = ''Earth'', emoji = ''E''\<rparr>,
          \<lparr>id' = ''Geyser'', emoji = ''G''\<rparr>)] idle))) =
   [(''https://infinibrowser.wiki/api/analytics/share'', Some (Str ''POST''),
     Some (Str ''{id;emoji;steps;}''))]"
proof -
  let ?pf = "mock_platform :: (json, (element, element) unknown) platform"
  let ?steps = "[(\<lparr>id' = ''Water'', emoji = ''W''\<rparr>, \<lparr>id' = ''Fire'', emoji = ''F''\<rparr>,
     \<lparr>id' = ''Steam'', emoji = ''S''\<rparr>),
    (\<lparr>id' = ''Steam'', emoji = ''S''\<rparr>, \<lparr>id' = ''Earth'', emoji = ''E''\<rparr>,
     \<lparr>id' = ''Geyser'', emoji = ''G''\<rparr>)]"
  let ?u = "\<lparr>href = ''https://infinibrowser.wiki/api/analytics/share'', searchParams = []\<rparr>"
  let ?body = "''{id;emoji;steps;}''"
  have h0: "?steps \<noteq> []" by simp
  have h1: "URL_new ?pf (API_URL DEFAULT_OPTIONS @ ''/analytics/share'') = Inr ?u"
    by (simp add: mock_platform_def mock_URL_def DEFAULT_OPTIONS_def)
  have h2: "JSON_stringify ?pf
      [(''id'', StringValue (id' (snd (snd (last ?steps))))),
       (''emoji'', StringValue (emoji (snd (snd (last ?steps))))),
       (''steps'', StepsValue ?steps)] = Inr ?body"
    by (simp add: mock_platform_def mock_stringify_def)
  have h3: "Request_invalid ?pf ?u
       (requestInit DEFAULT_OPTIONS (next_timer idle)
          [''method'' \<mapsto> Str ''POST'',
           ''headers'' \<mapsto> HeadersValue [(''Content-Type'', ''application/json'')],
           ''body'' \<mapsto> Str ?body]) = None"
    by (simp add: mock_platform_def)
  have s0: "sent idle = []" by (simp add: idle_def)
  from shareLineage_sends [OF h0, of ?pf DEFAULT_OPTIONS idle ?u ?body] h1 h2 h3
  have eq: "shareLineage ?pf DEFAULT_OPTIONS ?steps idle =
      post ?pf DEFAULT_OPTIONS ''/analytics/share'' None
        (Some [(''id'', StringValue (id' (snd (snd (last ?steps))))),
               (''emoji'', StringValue (emoji (snd (snd (last ?steps))))),
               (''steps'', StepsValue ?steps)]) idle"
    and "\<exists>R. sent (snd (shareLineage ?pf DEFAULT_OPTIONS ?steps idle))
                = sent idle @ [\<lparr>request_url = ?u, request_init = R\<rparr>] \<and>
              R ''method'' = Some (Str ''POST'') \<and> R ''body'' = Some (Str ?body)"
    by blast+
  then obtain R where R: "sent (snd (shareLineage ?pf DEFAULT_OPTIONS ?steps idle))
                = [\<lparr>request_url = ?u, request_init = R\<rparr>]"
      "R ''method'' = Some (Str ''POST'')" "R ''body'' = Some (Str ?body)"
    unfolding s0 by auto
  have m: "map (\<lambda>r. (href (request_url r), request_init r ''method'', request_init r ''body''))
     (sent (snd (shareLineage ?pf DEFAULT_OPTIONS ?steps idle))) =
   [(''https://infinibrowser.wiki/api/analytics/share'', Some (Str ''POST''), Some (Str ?body))]"
    by (simp add: R)
  have eq': "shareLineage ?pf DEFAULT_OPTIONS ?steps idle =
      post ?pf DEFAULT_OPTIONS ''/analytics/share'' None
        (Some [(''id'', StringValue ''Geyser''), (''emoji'', StringValue ''G''),
               (''steps'', StepsValue ?steps)]) idle"
    using eq by simp
  show ?thesis using h0 eq' m by blast
qed

text \<open>
  C8 (as amended). An endpoint call returns its outcome as a result value, and throws
  nothing, when the base URL plus the endpoint's path parse as a URL and, for the two
  POST endpoints, the payload serialises; for \<^verbatim>\<open>shareLineage\<close> the steps are not empty.
\<close>

theorem endpoints_return_results:
  fixes pf :: "('j, 'v) platform" and pf' :: "('j, ('a, 'b) unknown) platform"
    and steps :: "('a, 'b) step list"
  shows
  "(\<not> isl (URL_new pf (API_URL cfg @ ''/item'')) \<longrightarrow> \<not> isl (fst (getItem pf cfg i w))) \<and>
   (\<not> isl (URL_new pf (API_URL cfg @ ''/recipes'')) \<longrightarrow>
      \<not> isl (fst (getRecipes pf cfg i offset w))) \<and>
   (\<not> isl (URL_new pf (API_URL cfg @ ''/uses'')) \<longrightarrow>
      \<not> isl (fst (getUses pf cfg i offset w))) \<and>
   (\<not> isl (URL_new pf (API_URL cfg @ ''/recipe'')) \<longrightarrow>
      \<not> isl (fst (getLineage pf cfg i w))) \<and>
   (\<not> isl (URL_new pf (API_URL cfg @ ''/recipe/custom'')) \<longrightarrow>
      \<not> isl (fst (getCustomLineage pf cfg i w))) \<and>
   (\<not> isl (URL_new pf (API_URL cfg @ ''/optimize-lineage'')) \<and> \<not> isl (JSON_stringify pf [])
      \<longrightarrow> \<not> isl (fst (optimizeLineage pf cfg i w))) \<and>
   (steps \<noteq> [] \<and> \<not> isl (URL_new pf' (API_URL cfg @ ''/analytics/share'')) \<and>
    \<not> isl (JSON_stringify pf'
       [(''id'', StringValue (id' (snd (snd (last steps))))),
        (''emoji'', StringValue (emoji (snd (snd (last steps))))),
        (''steps'', StepsValue steps)])
      \<longrightarrow> \<not> isl (fst (shareLineage pf' cfg steps w)))"
proof (intro conjI impI)
  show "\<not> isl (fst (getItem pf cfg i w))" if "\<not> isl (URL_new pf (API_URL cfg @ ''/item''))"
    using that unfolding getItem_def by (rule get_returns)
  show "\<not> isl (fst (getRecipes pf cfg i offset w))"
    if "\<not> isl (URL_new pf (API_URL cfg @ ''/recipes''))"
    using that unfolding getRecipes_def by (rule get_returns)
  show "\<not> isl (fst (getUses pf cfg i offset w))"
    if "\<not> isl (URL_new pf (API_URL cfg @ ''/uses''))"
    using that unfolding getUses_def by (rule get_returns)
  show "\<not> isl (fst (getLineage pf cfg i w))"
    if "\<not> isl (URL_new pf (API_URL cfg @ ''/recipe''))"
    using that unfolding getLineage_def by (rule get_returns)
  show "\<not> isl (fst (getCustomLineage pf cfg i w))"
    if "\<not> isl (URL_new pf (API_URL cfg @ ''/recipe/custom''))"
    using that unfolding getCustomLineage_def by (rule get_returns)
  show "\<not> isl (fst (optimizeLineage pf cfg i w))"
    if "\<not> isl (URL_new pf (API_URL cfg @ ''/optimize-lineage'')) \<and> \<not> isl (JSON_stringify pf [])"
    using that unfolding optimizeLineage_def by (intro post_returns) simp_all
  show "\<not> isl (fst (shareLineage pf' cfg steps w))"
    if h: "steps \<noteq> [] \<and> \<not> isl (URL_new pf' (API_URL cfg @ ''/analytics/share'')) \<and>
    \<not> isl (JSON_stringify pf'
       [(''id'', StringValue (id' (snd (snd (last steps))))),
        (''emoji'', StringValue (emoji (snd (snd (last steps))))),
        (''steps'', StepsValue steps)])"
  proof -
    have "shareLineage pf' cfg steps w = post pf' cfg ''/analytics/share'' None
       (Some [(''id'', StringValue (id' (snd (snd (last steps))))),
        (''emoji'', StringValue (emoji (snd (snd (last steps))))),
        (''steps'', StepsValue steps)]) w"
      using h by (cases steps) (simp_all add: shareLineage_def Let_def)
    then show ?thesis using h by (simp add: post_returns)
  qed
qed

theorem endpoints_return_results_witness:
  "\<not> isl (URL_new (mock_platform :: (json, unit) platform) (API_URL DEFAULT_OPTIONS @ ''/item'')) \<and>
   \<not> isl (fst (getItem (mock_platform :: (json, unit) platform) DEFAULT_OPTIONS ''Water'' idle)) \<and>
   \<not> isl (URL_new (mock_platform :: (json, unit) platform)
            (API_URL DEFAULT_OPTIONS @ ''/optimize-lineage'')) \<and>
   \<not> isl (JSON_stringify (mock_platform :: (json, unit) platform) []) \<and>
   \<not> isl (fst (optimizeLineage (mock_platform :: (json, unit) platform)
                 DEFAULT_OPTIONS ''Water'' idle)) \<and>
   \<not> isl (fst (shareLineage (mock_platform :: (json, (unit, unit) unknown) platform)
                 DEFAULT_OPTIONS [((), (), \<lparr>id' = ''Steam'', emoji = ''S''\<rparr>)] idle))"
proof -
  let ?pf = "mock_platform :: (json, unit) platform"
  let ?pf' = "mock_platform :: (json, (unit, unit) unknown) platform"
  let ?steps = "[((), (), \<lparr>id' = ''Steam'', emoji = ''S''\<rparr>)]"
  have u: "\<not> isl (URL_new ?pf (API_URL DEFAULT_OPTIONS @ p))"
    "\<not> isl (URL_new ?pf' (API_URL DEFAULT_OPTIONS @ p))" for p
    by (simp_all add: mock_platform_def mock_URL_def DEFAULT_OPTIONS_def)
  have s: "\<not> isl (JSON_stringify ?pf x)" "\<not> isl (JSON_stringify ?pf' y)" for x y
    by (simp_all add: mock_platform_def mock_stringify_def)
  have n: "?steps \<noteq> []" by simp
  show ?thesis
    using endpoints_return_results [of ?pf DEFAULT_OPTIONS "''Water''" idle None ?steps ?pf']
      u s n by blast
qed

text \<open>
  C8 as stated fails: \<^verbatim>\<open>buildUrl\<close> runs outside the \<^verbatim>\<open>try\<close> block, so with a base URL that
  is no absolute URL \<^verbatim>\<open>getItem\<close> throws the \<^verbatim>\<open>TypeError\<close> of \<^verbatim>\<open>new URL\<close>.
\<close>

theorem endpoint_throws_counterexample:
  "fst (getItem (mock_platform :: (json, unit) platform)
         \<lparr>API_URL = ''infinibrowser.wiki/api'', timeout = 1000, request = Absent\<rparr>
         ''Water'' idle) = Inl (TypeError ''Invalid URL'')"
  by (simp add: getItem_def get_def buildUrl_def mock_platform_def mock_URL_def)

text \<open>
  C9. The timeout-guarded send returns a result value, whatever the platform does, and the
  timer it started (the one with the id \<open>next_timer w\<close>) is not pending when it returns;
  exactly one timer was started, and the other timers are as they were.
\<close>

theorem fetchWithTimeout_clears_timer:
  "(\<exists>r. fst (fetchWithTimeout pf cfg u init w) = Inr r) \<and>
   next_timer w \<notin> set (timers (snd (fetchWithTimeout pf cfg u init w))) \<and>
   timers (snd (fetchWithTimeout pf cfg u init w)) = removeAll (next_timer w) (timers w) \<and>
   next_timer (snd (fetchWithTimeout pf cfg u init w)) = Suc (next_timer w)"
  using fetchWithTimeout_returns [of pf cfg u init w]
  by (simp add: fetchWithTimeout_timers fetchWithTimeout_next_timer)

text \<open>
  C10. When the response's status is not 2xx and its body is text that \<^verbatim>\<open>JSON.parse\<close>
  rejects, the timeout-guarded send returns the transport error with the code
  \<^verbatim>\<open>SYNTAX_ERROR\<close>; and whenever it returns a result with the code \<^verbatim>\<open>NOT_OK\<close>, the status
  of the response in it is not 2xx and its body parsed to the data in it.
\<close>

theorem fetchWithTimeout_not_ok_not_json:
  "(Request_invalid pf u (requestInit cfg (next_timer w) init) = None \<and>
    fetch pf \<lparr>request_url = u, request_init = requestInit cfg (next_timer w) init\<rparr>
      = Resolved response \<and>
    \<not> response_ok response \<and> body_text response = Resolved txt \<and> JSON_parse pf txt = None
    \<longrightarrow> fst (fetchWithTimeout pf cfg u init w)
          = Inr (TransportError SYNTAX_ERROR (SyntaxError ''JSON.parse'')) \<and>
        error_code_of (TransportError SYNTAX_ERROR (SyntaxError ''JSON.parse'')) = Some ''SYNTAX_ERROR'')
   \<and>
   (fst (fetchWithTimeout pf cfg u init w) = Inr (ApplicationError d r)
    \<longrightarrow> \<not> response_ok r \<and> (\<exists>t. body_text r = Resolved t \<and> JSON_parse pf t = Some d))"
proof (intro conjI impI)
  assume a: "Request_invalid pf u (requestInit cfg (next_timer w) init) = None \<and>
    fetch pf \<lparr>request_url = u, request_init = requestInit cfg (next_timer w) init\<rparr>
      = Resolved response \<and>
    \<not> response_ok response \<and> body_text response = Resolved txt \<and> JSON_parse pf txt = None"
  then have h1: "Request_invalid pf u (requestInit cfg (next_timer w) init) = None"
    and h2: "fetch pf \<lparr>request_url = u, request_init = requestInit cfg (next_timer w) init\<rparr>
      = Resolved response"
    and h4: "body_text response = Resolved txt" and h5: "JSON_parse pf txt = None"
    by simp_all
  show "fst (fetchWithTimeout pf cfg u init w)
      = Inr (TransportError SYNTAX_ERROR (SyntaxError ''JSON.parse''))"
    by (simp add: fetchWithTimeout_response [OF h1 h2 h4] h5)
  show "error_code_of (TransportError SYNTAX_ERROR (SyntaxError ''JSON.parse'')) = Some ''SYNTAX_ERROR''"
    by simp
next
  assume a: "fst (fetchWithTimeout pf cfg u init w) = Inr (ApplicationError d r)"
  have "fst (try_block pf cfg (next_timer w) u init (snd (setTimeout w)))
      = Inr (ApplicationError d r)"
  proof (cases "fst (try_block pf cfg (next_timer w) u init (snd (setTimeout w)))")
    case (Inl e)
    then show ?thesis using a by (simp add: fetchWithTimeout_fst handleError_code)
  next
    case (Inr x)
    then show ?thesis using a by (simp add: fetchWithTimeout_fst)
  qed
  then have b: "\<not> response_ok r \<and> (\<exists>txt. body_text r = Resolved txt \<and> JSON_parse pf txt = Some d)"
    by (rule try_block_ApplicationError)
  from b show "\<not> response_ok r" by simp
  from b show "\<exists>t. body_text r = Resolved t \<and> JSON_parse pf t = Some d" by simp
qed

theorem fetchWithTimeout_not_ok_not_json_witness:
  "\<not> response_ok \<lparr>status = 502, body_text = Resolved ''<html>Bad Gateway</html>''\<rparr> \<and>
   JSON_parse (mock_platform :: (json, unit) platform) ''<html>Bad Gateway</html>'' = None \<and>
   fst (getItem (mock_platform :: (json, unit) platform) DEFAULT_OPTIONS ''Broken'' idle) =
     Inr (TransportError SYNTAX_ERROR (SyntaxError ''JSON.parse''))"
proof -
  let ?pf = "mock_platform :: (json, unit) platform"
  let ?u = "\<lparr>href = ''https://infinibrowser.wiki/api/item'', searchParams = [(''id'', ''Broken'')]\<rparr>"
  let ?init = "[''method'' \<mapsto> Str ''GET'',
                ''headers'' \<mapsto> HeadersValue [(''Accept'', ''application/json'')]]"
  let ?txt = "''<html>Bad Gateway</html>''"
  let ?response = "\<lparr>status = 502, body_text = Resolved ?txt\<rparr>"
  have call: "getItem ?pf DEFAULT_OPTIONS ''Broken'' idle
      = fetchWithTimeout ?pf DEFAULT_OPTIONS ?u ?init idle"
    by (simp add: getItem_def get_def buildUrl_def Object_entries_id mock_platform_def
        mock_URL_def DEFAULT_OPTIONS_def)
  have h1: "Request_invalid ?pf ?u (requestInit DEFAULT_OPTIONS (next_timer idle) ?init) = None"
    by (simp add: mock_platform_def)
  have h2: "fetch ?pf \<lparr>request_url = ?u,
        request_init = requestInit DEFAULT_OPTIONS (next_timer idle) ?init\<rparr> = Resolved ?response"
    by (simp add: mock_platform_def mock_fetch_def)
  have h3: "\<not> response_ok ?response" by (simp add: response_ok_def)
  have h4: "body_text ?response = Resolved ?txt" by simp
  have h5: "JSON_parse ?pf ?txt = None" by (simp add: mock_platform_def mock_parse_def)
  have "fst (fetchWithTimeout ?pf DEFAULT_OPTIONS ?u ?init idle)
      = Inr (TransportError SYNTAX_ERROR (SyntaxError ''JSON.parse''))"
    using fetchWithTimeout_not_ok_not_json
      [of ?pf ?u DEFAULT_OPTIONS idle ?init ?response ?txt undefined undefined]
      h1 h2 h3 h4 h5 by blast
  then show ?thesis
    using h3 h5 by (simp only: call simp_thms)
qed

end
